theory Spec2Isabelle
  imports Complex_Main
begin

section \<open>The process environment\<close>

text \<open>
  The k6 runtime hands the scripts the variables of the process as the object
  \<^verbatim>\<open>__ENV\<close>: a dictionary from names to strings. A variable that is not set reads as
  \<^verbatim>\<open>undefined\<close>, here \<open>None\<close>.
\<close>

type_synonym process_env = "string \<rightharpoonup> string"

text \<open>
  \<^verbatim>\<open>__ENV.K || 'd'\<close>: JavaScript's \<^verbatim>\<open>||\<close> yields its right operand when the left one is
  falsy. Of the values a variable can read as, \<^verbatim>\<open>undefined\<close> and the empty string are
  falsy; every other string (also \<^verbatim>\<open>'0'\<close>) is truthy.
\<close>

definition env_or :: "process_env \<Rightarrow> string \<Rightarrow> string \<Rightarrow> string" where
  "env_or penv k d = (case penv k of None \<Rightarrow> d | Some v \<Rightarrow> if v = [] then d else v)"

section \<open>Environment registry (src/config/environments.ts)\<close>

text \<open>\<^verbatim>\<open>type Environment = 'dev' | 'qa' | 'staging' | 'prod'\<close>\<close>

datatype Environment = Dev | Qa | Staging | Prod

record EnvironmentConfig =
  name :: Environment
  baseUrl :: string
  apiKey :: string
  maxVUs :: nat
  description :: string

text \<open>
  \<^verbatim>\<open>const currentEnv = (__ENV.ENV || 'prod') as Environment\<close>. The cast is a compile-time
  annotation only: at run time \<open>currentEnv\<close> is whatever string the variable holds.
\<close>

definition currentEnv :: "process_env \<Rightarrow> string" where
  "currentEnv penv = env_or penv ''ENV'' ''prod''"

definition dev_config :: "process_env \<Rightarrow> EnvironmentConfig" where
  "dev_config penv =
     \<lparr> name = Dev,
       baseUrl = env_or penv ''DEV_BASE_URL'' ''https://dev.api.example.com'',
       apiKey = env_or penv ''DEV_API_KEY'' '''',
       maxVUs = 50,
       description = ''Development environment'' \<rparr>"

definition qa_config :: "process_env \<Rightarrow> EnvironmentConfig" where
  "qa_config penv =
     \<lparr> name = Qa,
       baseUrl = env_or penv ''QA_BASE_URL'' ''https://qa.api.example.com'',
       apiKey = env_or penv ''QA_API_KEY'' '''',
       maxVUs = 100,
       description = ''QA/Testing environment'' \<rparr>"

definition staging_config :: "process_env \<Rightarrow> EnvironmentConfig" where
  "staging_config penv =
     \<lparr> name = Staging,
       baseUrl = env_or penv ''STAGING_BASE_URL'' ''https://staging.api.example.com'',
       apiKey = env_or penv ''STAGING_API_KEY'' '''',
       maxVUs = 200,
       description = ''Staging/Pre-production environment'' \<rparr>"

definition prod_config :: "process_env \<Rightarrow> EnvironmentConfig" where
  "prod_config penv =
     \<lparr> name = Prod,
       baseUrl = env_or penv ''BASE_URL'' ''https://api.practicesoftwaretesting.com'',
       apiKey = env_or penv ''API_KEY'' '''',
       maxVUs = 500,
       description = ''Production environment'' \<rparr>"

text \<open>
  The registry \<^verbatim>\<open>environments\<close> is an object literal with exactly four own keys, kept
  here as the association list of its entries in source order.
\<close>

definition environments :: "process_env \<Rightarrow> (string \<times> EnvironmentConfig) list" where
  "environments penv =
     [ (''dev'', dev_config penv),
       (''qa'', qa_config penv),
       (''staging'', staging_config penv),
       (''prod'', prod_config penv) ]"

text \<open>
  \<^verbatim>\<open>getCurrentEnvironment()\<close> is \<^verbatim>\<open>environments[currentEnv]\<close>, a plain property read with
  no check of the name. For a name that is not one of the four keys the read does not
  produce an \<open>EnvironmentConfig\<close>: JavaScript yields \<^verbatim>\<open>undefined\<close> (or, for the name of
  a member of \<^verbatim>\<open>Object.prototype\<close> such as \<^verbatim>\<open>toString\<close>, that inherited member). Both
  are \<open>None\<close> here: no entry of the registry.
\<close>

definition getCurrentEnvironment :: "process_env \<Rightarrow> EnvironmentConfig option" where
  "getCurrentEnvironment penv = map_of (environments penv) (currentEnv penv)"

text \<open>\<^verbatim>\<open>getEnvironment(env)\<close>: the same read at a name the caller supplies.\<close>

definition getEnvironment :: "process_env \<Rightarrow> string \<Rightarrow> EnvironmentConfig option" where
  "getEnvironment penv env = map_of (environments penv) env"

section \<open>JavaScript built-ins the scripts rely on\<close>

text \<open>
  Strings are sequences of characters with codes below 256. \<open>parseInt\<close> below
  returns the integer that the digits denote; \<^verbatim>\<open>NaN\<close> is \<open>None\<close>. The number that
  JavaScript makes of that integer is a double: \<open>to_double\<close> below, which is the
  integer itself up to magnitude \<open>2^53\<close>, a rounded value beyond, and an infinity
  from \<open>2^1024 - 2^970\<close> on. Whether a number is zero, which is all that
  \<open>truthy_number\<close> asks, is the same for the integer and for its double.

  \<^verbatim>\<open>parseInt(string)\<close> with no radix: leading white space is skipped, an optional sign
  is read, the prefix \<^verbatim>\<open>0x\<close>/\<^verbatim>\<open>0X\<close> selects radix 16 (otherwise 10), and the longest
  prefix of digits of that radix is the value. With no digit the result is \<^verbatim>\<open>NaN\<close>.
\<close>

definition isStrWhiteSpaceChar :: "char \<Rightarrow> bool" where
  "isStrWhiteSpaceChar c =
     (let n = (of_char c :: nat) in n = 9 \<or> n = 10 \<or> n = 11 \<or> n = 12 \<or> n = 13 \<or> n = 32 \<or> n = 160)"

definition digitValue :: "char \<Rightarrow> nat option" where
  "digitValue c =
     (let n = (of_char c :: nat) in
      if 48 \<le> n \<and> n \<le> 57 then Some (n - 48)
      else if 97 \<le> n \<and> n \<le> 122 then Some (n - 87)
      else if 65 \<le> n \<and> n \<le> 90 then Some (n - 55)
      else None)"

definition isRadixDigit :: "nat \<Rightarrow> char \<Rightarrow> bool" where
  "isRadixDigit radix c = (case digitValue c of None \<Rightarrow> False | Some d \<Rightarrow> d < radix)"

definition digitsValue :: "nat \<Rightarrow> string \<Rightarrow> nat" where
  "digitsValue radix z =
     foldl (\<lambda>acc c. acc * radix + (case digitValue c of None \<Rightarrow> 0 | Some d \<Rightarrow> d)) 0 z"

definition parseInt :: "string \<Rightarrow> int option" where
  "parseInt inputString =
     (let s0 = dropWhile isStrWhiteSpaceChar inputString;
          negative = (take 1 s0 = ''-'');
          s1 = (if take 1 s0 = ''+'' \<or> take 1 s0 = ''-'' then drop 1 s0 else s0);
          hex = (take 2 s1 = ''0x'' \<or> take 2 s1 = ''0X'');
          radix = (if hex then 16 else 10);
          s2 = (if hex then drop 2 s1 else s1);
          z = takeWhile (isRadixDigit radix) s2
      in if z = [] then None
         else Some (if negative then - int (digitsValue radix z) else int (digitsValue radix z)))"

text \<open>
  \<^verbatim>\<open>n || null\<close>, \<^verbatim>\<open>n || undefined\<close> for a number \<open>n\<close>: \<^verbatim>\<open>NaN\<close> and \<open>0\<close> are falsy, so the
  right operand is the result for them; \<open>None\<close> stands for that right operand.
\<close>

definition truthy_number :: "int option \<Rightarrow> int option" where
  "truthy_number n = (case n of None \<Rightarrow> None | Some v \<Rightarrow> if v = 0 then None else Some v)"

text \<open>
  JavaScript numbers, for the arithmetic of \<^verbatim>\<open>calculateOptimalThinkTime\<close>: \<^verbatim>\<open>NaN\<close>, the
  two infinities, and the finite doubles. A finite double is a sign and a magnitude
  (a non-negative real), so that \<open>Fin Neg 0\<close> is the negative zero.
\<close>

datatype sign = Pos | Neg

fun sign_times :: "sign \<Rightarrow> sign \<Rightarrow> sign" where
  "sign_times Pos t = t"
| "sign_times Neg Pos = Neg"
| "sign_times Neg Neg = Pos"

fun opposite :: "sign \<Rightarrow> sign" where
  "opposite Pos = Neg"
| "opposite Neg = Pos"

definition signed :: "sign \<Rightarrow> real \<Rightarrow> real" where
  "signed s m = (case s of Pos \<Rightarrow> m | Neg \<Rightarrow> - m)"

datatype number = NaN | Infinity sign | Fin sign real

text \<open>
  Rounding to the nearest double. A magnitude of \<open>2^1024 - 2^970\<close> or more (half way
  between the largest double and \<open>2^1024\<close>) rounds to an infinity. Below that, the
  nearest double (ties to even) of a magnitude is the parameter \<open>rnd\<close> of the model:
  the results below hold for every \<open>rnd\<close>.
\<close>

type_synonym rounding = "real \<Rightarrow> real"

definition overflow_threshold :: real where
  "overflow_threshold = 2 ^ 1024 - 2 ^ 970"

definition rounded :: "rounding \<Rightarrow> sign \<Rightarrow> real \<Rightarrow> number" where
  "rounded rnd s m = (if overflow_threshold \<le> m then Infinity s else Fin s (rnd m))"

text \<open>The double of an integer, as \<^verbatim>\<open>parseInt\<close> and \<^verbatim>\<open>Math.floor\<close> return it.\<close>

definition to_double :: "rounding \<Rightarrow> int \<Rightarrow> number" where
  "to_double rnd n =
     (if n = 0 then Fin Pos 0
      else if n < 0 then rounded rnd Neg (real_of_int (- n))
      else rounded rnd Pos (real_of_int n))"

text \<open>
  \<^verbatim>\<open>x - y\<close>. An exact difference of zero is the positive zero, except for
  \<^verbatim>\<open>(-0) - (+0)\<close>.
\<close>

fun number_sub :: "rounding \<Rightarrow> number \<Rightarrow> number \<Rightarrow> number" where
  "number_sub rnd NaN y = NaN"
| "number_sub rnd x NaN = NaN"
| "number_sub rnd (Infinity s) (Infinity t) = (if s = t then NaN else Infinity s)"
| "number_sub rnd (Infinity s) (Fin t b) = Infinity s"
| "number_sub rnd (Fin s a) (Infinity t) = Infinity (opposite t)"
| "number_sub rnd (Fin s a) (Fin t b) =
     (let v = signed s a - signed t b in
      if v = 0 then (if s = Neg \<and> t = Pos then Fin Neg 0 else Fin Pos 0)
      else if v < 0 then rounded rnd Neg (- v)
      else rounded rnd Pos v)"

text \<open>
  \<^verbatim>\<open>x / y\<close>: \<^verbatim>\<open>Infinity / Infinity\<close> and \<^verbatim>\<open>0 / 0\<close> are \<^verbatim>\<open>NaN\<close>; a division by zero is
  an infinity; the sign of a result is the product of the signs.
\<close>

fun number_div :: "rounding \<Rightarrow> number \<Rightarrow> number \<Rightarrow> number" where
  "number_div rnd NaN y = NaN"
| "number_div rnd x NaN = NaN"
| "number_div rnd (Infinity s) (Infinity t) = NaN"
| "number_div rnd (Infinity s) (Fin t b) = Infinity (sign_times s t)"
| "number_div rnd (Fin s a) (Infinity t) = Fin (sign_times s t) 0"
| "number_div rnd (Fin s a) (Fin t b) =
     (if b = 0 then (if a = 0 then NaN else Infinity (sign_times s t))
      else if a = 0 then Fin (sign_times s t) 0
      else rounded rnd (sign_times s t) (a / b))"

text \<open>\<^verbatim>\<open>x * y\<close>: an infinity times zero is \<^verbatim>\<open>NaN\<close>.\<close>

fun number_mul :: "rounding \<Rightarrow> number \<Rightarrow> number \<Rightarrow> number" where
  "number_mul rnd NaN y = NaN"
| "number_mul rnd x NaN = NaN"
| "number_mul rnd (Infinity s) (Infinity t) = Infinity (sign_times s t)"
| "number_mul rnd (Infinity s) (Fin t b) = (if b = 0 then NaN else Infinity (sign_times s t))"
| "number_mul rnd (Fin s a) (Infinity t) = (if a = 0 then NaN else Infinity (sign_times s t))"
| "number_mul rnd (Fin s a) (Fin t b) =
     (if a = 0 \<or> b = 0 then Fin (sign_times s t) 0
      else rounded rnd (sign_times s t) (a * b))"

text \<open>
  \<^verbatim>\<open>Math.max(x, y)\<close>: \<^verbatim>\<open>NaN\<close> when either argument is \<^verbatim>\<open>NaN\<close>, otherwise the larger
  argument, the positive zero counting as larger than the negative one.
\<close>

fun Math_max :: "number \<Rightarrow> number \<Rightarrow> number" where
  "Math_max NaN y = NaN"
| "Math_max x NaN = NaN"
| "Math_max (Infinity Pos) y = Infinity Pos"
| "Math_max x (Infinity Pos) = Infinity Pos"
| "Math_max (Infinity Neg) y = y"
| "Math_max x (Infinity Neg) = x"
| "Math_max (Fin s a) (Fin t b) =
     (if signed s a < signed t b then Fin t b
      else if signed t b < signed s a then Fin s a
      else if s = Pos then Fin s a else Fin t b)"



section \<open>Thresholds (src/config/thresholds.ts)\<close>

text \<open>
  A \<^verbatim>\<open>Record<string, string[]>\<close> is a dictionary from metric expressions to lists of
  conditions. The object spread \<^verbatim>\<open>{ ...a, ...b }\<close> copies the keys of \<open>a\<close>, then those of
  \<open>b\<close> over them: \<open>a ++ b\<close>.
\<close>

type_synonym thresholds = "string \<rightharpoonup> string list"

definition defaultThresholds :: "process_env \<Rightarrow> thresholds" where
  "defaultThresholds penv = map_of
     [ (''http_req_duration'',
          [ ''p(95)<'' @ env_or penv ''HTTP_REQ_DURATION_P95'' ''500'',
            ''p(99)<'' @ env_or penv ''HTTP_REQ_DURATION_P99'' ''1000'' ]),
       (''http_req_failed'', [ ''rate<'' @ env_or penv ''HTTP_REQ_FAILED_RATE'' ''0.01'' ]),
       (''http_reqs'', [ ''rate>'' @ env_or penv ''HTTP_REQS_RATE'' ''100'' ]),
       (''checks'', [ ''rate>0.95'' ]) ]"

definition strictThresholds :: thresholds where
  "strictThresholds = map_of
     [ (''http_req_duration'', [ ''p(95)<300'', ''p(99)<800'' ]),
       (''http_req_failed'', [ ''rate<0.005'' ]),
       (''http_reqs'', [ ''rate>200'' ]),
       (''checks'', [ ''rate>0.99'' ]) ]"

definition relaxedThresholds :: thresholds where
  "relaxedThresholds = map_of
     [ (''http_req_duration'', [ ''p(95)<1000'', ''p(99)<2000'' ]),
       (''http_req_failed'', [ ''rate<0.05'' ]),
       (''http_reqs'', [ ''rate>50'' ]),
       (''checks'', [ ''rate>0.90'' ]) ]"

definition endpointThresholds :: thresholds where
  "endpointThresholds = map_of
     [ (''http_req_duration{endpoint:login}'', [ ''p(95)<200'', ''p(99)<500'' ]),
       (''http_req_duration{endpoint:list}'', [ ''p(95)<500'', ''p(99)<1000'' ]),
       (''http_req_duration{endpoint:create}'', [ ''p(95)<800'', ''p(99)<1500'' ]),
       (''http_req_duration{endpoint:update}'', [ ''p(95)<800'', ''p(99)<1500'' ]),
       (''http_req_duration{endpoint:delete}'', [ ''p(95)<300'', ''p(99)<600'' ]) ]"

definition getThresholdsForEnvironment :: "process_env \<Rightarrow> string \<Rightarrow> thresholds" where
  "getThresholdsForEnvironment penv env =
     (if env = ''prod'' then strictThresholds ++ endpointThresholds
      else if env = ''dev'' then relaxedThresholds
      else defaultThresholds penv ++ endpointThresholds)"

section \<open>Test options (src/config/test-config.ts)\<close>

text \<open>
  A stage of a load profile: \<^verbatim>\<open>{ duration, target }\<close>. The target of the load profile is
  \<^verbatim>\<open>parseInt(__ENV.VUS || '10')\<close>, which is \<^verbatim>\<open>NaN\<close> (\<open>None\<close>) for a value without digits.
\<close>

record Stage =
  duration :: string
  target :: "int option"

text \<open>The fields of k6's \<^verbatim>\<open>Options\<close> that the scripts set; an absent field is \<open>None\<close>.\<close>

record Options =
  userAgent :: string
  batch :: nat
  batchPerHost :: nat
  noConnectionReuse :: bool
  noVUConnectionReuse :: bool
  tags :: "string \<rightharpoonup> string"
  thresholds :: thresholds
  stages :: "Stage list option"
  vus :: "nat option"
  duration_opt :: "string option"










section \<open>Responses of the runtime\<close>

text \<open>
  Exceptions are values: \<open>TypeError\<close> is what JavaScript throws at a property read on
  \<^verbatim>\<open>null\<close> or \<^verbatim>\<open>undefined\<close>, \<open>JsonError\<close> what \<^verbatim>\<open>response.json()\<close> throws for a body that
  is not JSON.
\<close>

datatype error = TypeError | JsonError

text \<open>
  The values a property traversal of a parsed JSON document can reach. \<open>JObj\<close> lists the
  members of an object (the first binding of a key is the member). \<open>JBuiltin\<close> is a value
  that is not part of any JSON document but that JavaScript supplies, such as a method
  inherited from a built-in prototype; it is identified by a name.
\<close>

datatype jsval =
    JNull
  | JBool bool
  | JNum real
  | JStr string
  | JArr "jsval list"
  | JObj "(string \<times> jsval) list"
  | JBuiltin string

text \<open>
  The body of a response is a string, an \<^verbatim>\<open>ArrayBuffer\<close> (its bytes) or \<^verbatim>\<open>null\<close>.
\<close>

datatype Body = BodyString string | BodyBuffer "nat list" | BodyNull

text \<open>
  The part of k6's response object that the scripts read. \<open>json\<close> is the outcome of the
  method \<^verbatim>\<open>response.json()\<close>: the parsed document, or the exception it throws.
  \<open>timings_duration\<close> is \<^verbatim>\<open>response.timings.duration\<close>, in milliseconds.
\<close>

record Response =
  status :: int
  headers :: "string \<rightharpoonup> string"
  body :: Body
  timings_duration :: real
  json :: "error + jsval"

text \<open>
  \<^verbatim>\<open>a || d\<close> for a string-valued read \<open>a\<close> that may be \<^verbatim>\<open>undefined\<close>: \<open>d\<close> when \<open>a\<close> is
  \<^verbatim>\<open>undefined\<close> or empty.
\<close>

definition or_else :: "string option \<Rightarrow> string \<Rightarrow> string" where
  "or_else a d = (case a of None \<Rightarrow> d | Some v \<Rightarrow> if v = [] then d else v)"

section \<open>Rate-limit handling (src/utils/rate-limit.ts)\<close>

record RateLimitInfo =
  limit :: int
  remaining :: int
  reset :: int
  retryAfter :: "int option"

definition extractRateLimitInfo :: "Response \<Rightarrow> RateLimitInfo option" where
  "extractRateLimitInfo response =
     (let h = headers response;
          limit = truthy_number (parseInt
            (or_else (h ''X-RateLimit-Limit'') (or_else (h ''X-Rate-Limit-Limit'') ''0'')));
          remaining = (case truthy_number (parseInt
            (or_else (h ''X-RateLimit-Remaining'') (or_else (h ''X-Rate-Limit-Remaining'') ''0'')))
            of None \<Rightarrow> 0 | Some v \<Rightarrow> v);
          reset = truthy_number (parseInt
            (or_else (h ''X-RateLimit-Reset'') (or_else (h ''X-Rate-Limit-Reset'') ''0'')));
          retryAfter = truthy_number (parseInt
            (or_else (h ''Retry-After'') (or_else (h ''retry-after'') ''0'')))
      in case limit of
           None \<Rightarrow> None
         | Some l \<Rightarrow>
             Some \<lparr> limit = l,
                    remaining = remaining,
                    reset = (case reset of None \<Rightarrow> 0 | Some v \<Rightarrow> v),
                    retryAfter = retryAfter \<rparr>)"

text \<open>
  What the functions change outside themselves: the counter \<^verbatim>\<open>rate_limit_hit\<close>, the two
  gauges (the last value set, if any), and the pauses requested from k6's \<^verbatim>\<open>sleep\<close>, in
  order, in seconds. (Console output is not modelled.)
\<close>

record Runtime =
  rate_limit_hit :: nat
  rate_limit_remaining :: "int option"
  rate_limit_reset_seconds :: "int option"
  slept :: "int list"

definition isRateLimited :: "Response \<Rightarrow> Runtime \<Rightarrow> bool \<times> Runtime" where
  "isRateLimited response rt =
     (if status response = 429 then (True, rt\<lparr>rate_limit_hit := rate_limit_hit rt + 1\<rparr>)
      else case extractRateLimitInfo response of
             None \<Rightarrow> (False, rt)
           | Some info \<Rightarrow>
               if remaining info = 0
               then (True, rt\<lparr>rate_limit_hit := rate_limit_hit rt + 1\<rparr>)
               else (False, rt))"




text \<open>
  \<^verbatim>\<open>calculateOptimalThinkTime\<close>. The fields of the info are the doubles of the integers
  parsed from the headers and \<open>now\<close> is the double of the clock; the literals \<^verbatim>\<open>1.2\<close>
  and \<^verbatim>\<open>0.1\<close> are the doubles nearest to them, \<^verbatim>\<open>1\<close> is exact.
\<close>

definition calculateOptimalThinkTime :: "rounding \<Rightarrow> int \<Rightarrow> Response \<Rightarrow> number" where
  "calculateOptimalThinkTime rnd now response =
     (case extractRateLimitInfo response of
        None \<Rightarrow> Fin Pos 1
      | Some info \<Rightarrow>
          if remaining info = 0 then Fin Pos 1
          else (let secondsUntilReset =
                      Math_max (number_sub rnd (to_double rnd (reset info)) (to_double rnd now))
                        (Fin Pos 1);
                    safeRequestsPerSecond =
                      number_div rnd (to_double rnd (remaining info)) secondsUntilReset;
                    optimalThinkTime =
                      number_mul rnd (number_div rnd (Fin Pos 1) safeRequestsPerSecond)
                        (Fin Pos (rnd (12 / 10)))
                in Math_max optimalThinkTime (Fin Pos (rnd (1 / 10)))))"

section \<open>Checks (src/utils/checks.ts)\<close>

text \<open>
  k6's \<^verbatim>\<open>check(value, sets)\<close> evaluates every predicate of the set on the value, records
  each outcome under its label, and returns true when all of them passed. An exception
  of a predicate is not caught. The labels do not enter the result and are left out.
\<close>

fun check :: "'r \<Rightarrow> ('r \<Rightarrow> error + bool) list \<Rightarrow> error + bool" where
  "check r [] = Inr True"
| "check r (p # ps) =
     (case p r of
        Inl e \<Rightarrow> Inl e
      | Inr b \<Rightarrow> (case check r ps of Inl e \<Rightarrow> Inl e | Inr bs \<Rightarrow> Inr (b \<and> bs)))"

text \<open>\<^verbatim>\<open>try { ... } catch { return c; }\<close>: whatever the block throws, the result is \<open>c\<close>.\<close>

definition try_catch :: "error + 'a \<Rightarrow> 'a \<Rightarrow> error + 'a" where
  "try_catch block c = (case block of Inl e \<Rightarrow> Inr c | Inr v \<Rightarrow> Inr v)"

text \<open>\<^verbatim>\<open>fieldPath.split('.')\<close>: the segments between the dots; never an empty list.\<close>

fun split_on :: "char \<Rightarrow> string \<Rightarrow> string list" where
  "split_on sep [] = [[]]"
| "split_on sep (c # cs) =
     (if c = sep then [] # split_on sep cs
      else (case split_on sep cs of [] \<Rightarrow> [[c]] | x # xs \<Rightarrow> (c # x) # xs))"

text \<open>
  An array index as a property key: the decimal numeral of a natural number, without
  leading zeros.
\<close>

definition canonical_index :: "string \<Rightarrow> nat option" where
  "canonical_index k =
     (if k \<noteq> [] \<and> list_all (isRadixDigit 10) k \<and> (k = ''0'' \<or> take 1 k \<noteq> ''0'')
      then Some (digitsValue 10 k) else None)"

text \<open>
  The own properties of a value: the members of an object; the elements and the
  \<^verbatim>\<open>length\<close> of an array; the characters and the \<^verbatim>\<open>length\<close> of a string.
\<close>

definition own_property :: "jsval \<Rightarrow> string \<Rightarrow> jsval option" where
  "own_property v k =
     (case v of
        JObj members \<Rightarrow> map_of members k
      | JArr xs \<Rightarrow>
          if k = ''length'' then Some (JNum (real (length xs)))
          else (case canonical_index k of
                  None \<Rightarrow> None
                | Some i \<Rightarrow> if i < length xs then Some (xs ! i) else None)
      | JStr s \<Rightarrow>
          if k = ''length'' then Some (JNum (real (length s)))
          else (case canonical_index k of
                  None \<Rightarrow> None
                | Some i \<Rightarrow> if i < length s then Some (JStr [s ! i]) else None)
      | _ \<Rightarrow> None)"

text \<open>
  \<^verbatim>\<open>current[field]\<close>. On \<^verbatim>\<open>null\<close> the read throws. Otherwise an own property is the
  result; for a key that is not an own property JavaScript consults the prototype
  chain of the value. What the built-in prototypes of the runtime hold is the
  parameter \<open>inherited\<close>; \<open>None\<close> is \<^verbatim>\<open>undefined\<close>.
\<close>

type_synonym prototypes = "jsval \<Rightarrow> string \<Rightarrow> jsval option"

definition get_property :: "prototypes \<Rightarrow> jsval \<Rightarrow> string \<Rightarrow> error + jsval option" where
  "get_property inherited v k =
     (if v = JNull then Inl TypeError
      else Inr (case own_property v k of Some x \<Rightarrow> Some x | None \<Rightarrow> inherited v k))"

text \<open>
  The loop \<^verbatim>\<open>for (const field of fields)\<close> of both field checks. \<open>Inr None\<close>: the loop
  left the function with \<^verbatim>\<open>return false\<close>; \<open>Inr (Some v)\<close>: the loop ran to its end with
  \<open>current = v\<close>; \<open>Inl e\<close>: a read threw.
\<close>

fun traverse :: "prototypes \<Rightarrow> jsval \<Rightarrow> string list \<Rightarrow> error + jsval option" where
  "traverse inherited current [] = Inr (Some current)"
| "traverse inherited current (field # rest) =
     (case get_property inherited current field of
        Inl e \<Rightarrow> Inl e
      | Inr None \<Rightarrow> Inr None
      | Inr (Some v) \<Rightarrow> traverse inherited v rest)"

text \<open>
  \<^verbatim>\<open>current === expectedValue\<close>: primitives are compared by value; an object or array
  parsed from the response is never identical to a value of the caller; a built-in is
  identical to itself.
\<close>

fun strict_equals :: "jsval \<Rightarrow> jsval \<Rightarrow> bool" where
  "strict_equals JNull JNull = True"
| "strict_equals (JBool a) (JBool b) = (a = b)"
| "strict_equals (JNum a) (JNum b) = (a = b)"
| "strict_equals (JStr a) (JStr b) = (a = b)"
| "strict_equals (JBuiltin a) (JBuiltin b) = (a = b)"
| "strict_equals _ _ = False"

text \<open>The \<^verbatim>\<open>try\<close> blocks of the two predicates, which may throw.\<close>

definition hasField_block :: "prototypes \<Rightarrow> string \<Rightarrow> Response \<Rightarrow> error + bool" where
  "hasField_block inherited fieldPath r =
     (case json r of
        Inl e \<Rightarrow> Inl e
      | Inr j \<Rightarrow>
          (case traverse inherited j (split_on CHR ''.'' fieldPath) of
             Inl e \<Rightarrow> Inl e
           | Inr None \<Rightarrow> Inr False
           | Inr (Some current) \<Rightarrow> Inr True))"

definition fieldEquals_block :: "prototypes \<Rightarrow> string \<Rightarrow> jsval \<Rightarrow> Response \<Rightarrow> error + bool" where
  "fieldEquals_block inherited fieldPath expectedValue r =
     (case json r of
        Inl e \<Rightarrow> Inl e
      | Inr j \<Rightarrow>
          (case traverse inherited j (split_on CHR ''.'' fieldPath) of
             Inl e \<Rightarrow> Inl e
           | Inr None \<Rightarrow> Inr False
           | Inr (Some current) \<Rightarrow> Inr (strict_equals current expectedValue)))"

definition checkJsonHasField :: "prototypes \<Rightarrow> Response \<Rightarrow> string \<Rightarrow> error + bool" where
  "checkJsonHasField inherited response fieldPath =
     check response [ \<lambda>r. try_catch (hasField_block inherited fieldPath r) False ]"

definition checkJsonFieldEquals ::
    "prototypes \<Rightarrow> Response \<Rightarrow> string \<Rightarrow> jsval \<Rightarrow> error + bool" where
  "checkJsonFieldEquals inherited response fieldPath expectedValue =
     check response [ \<lambda>r. try_catch (fieldEquals_block inherited fieldPath expectedValue r) False ]"

text \<open>The predicates of \<^verbatim>\<open>checkGetSuccess\<close>.\<close>

definition body_not_empty :: "Response \<Rightarrow> bool" where
  "body_not_empty r =
     (case body r of
        BodyString s \<Rightarrow> length s > 0
      | BodyBuffer bytes \<Rightarrow> length bytes > 0
      | BodyNull \<Rightarrow> False)"

definition valid_json :: "Response \<Rightarrow> error + bool" where
  "valid_json r = try_catch (case json r of Inl e \<Rightarrow> Inl e | Inr j \<Rightarrow> Inr True) False"

text \<open>
  \<^verbatim>\<open>checkGetSuccess(response, maxResponseTime = 1000)\<close>: an omitted ceiling (\<open>None\<close>) is
  1000 milliseconds.
\<close>

definition checkGetSuccess :: "Response \<Rightarrow> real option \<Rightarrow> error + bool" where
  "checkGetSuccess response maxResponseTime =
     (let maxMs = (case maxResponseTime of None \<Rightarrow> 1000 | Some m \<Rightarrow> m) in
      check response
        [ \<lambda>r. Inr (status r = 200),
          \<lambda>r. Inr (timings_duration r < maxMs),
          \<lambda>r. Inr (body_not_empty r),
          valid_json ])"

text \<open>
  What the specification calls a key of the parsed JSON: a member of an object, or an
  element of an array under its index. \<open>first_absent\<close> follows a path through the
  document and returns the value and the key at which the path leaves it, if it does.
\<close>

definition json_member :: "jsval \<Rightarrow> string \<Rightarrow> jsval option" where
  "json_member v k =
     (case v of
        JObj members \<Rightarrow> map_of members k
      | JArr xs \<Rightarrow>
          (case canonical_index k of
             None \<Rightarrow> None
           | Some i \<Rightarrow> if i < length xs then Some (xs ! i) else None)
      | _ \<Rightarrow> None)"

fun first_absent :: "jsval \<Rightarrow> string list \<Rightarrow> (jsval \<times> string) option" where
  "first_absent v [] = None"
| "first_absent v (k # ks) =
     (case json_member v k of None \<Rightarrow> Some (v, k) | Some w \<Rightarrow> first_absent w ks)"

text \<open>A runtime whose prototypes hold nothing.\<close>

definition no_prototypes :: prototypes where
  "no_prototypes v k = None"

section \<open>HTTP helpers (src/utils/http.ts)\<close>

text \<open>
  \<^verbatim>\<open>RequestOptions\<close>: every field is optional. The argument \<^verbatim>\<open>params\<close> of a helper is
  optional too, so a helper receives a \<open>RequestOptions option\<close>.
\<close>

record RequestOptions =
  p_headers :: "(string \<rightharpoonup> string) option"
  p_tags :: "(string \<rightharpoonup> string) option"
  timeout :: "string option"
  endpoint :: "string option"
  includeAuth :: "bool option"



text \<open>
  \<^verbatim>\<open>s.replace(/\/$/, '')\<close>: the pattern matches one slash at the very end of the string;
  that slash, if there is one, is removed.
\<close>

definition remove_trailing_slash :: "string \<Rightarrow> string" where
  "remove_trailing_slash s = (if s \<noteq> [] \<and> last s = CHR ''/'' then butlast s else s)"

definition cleanEndpoint :: "string \<Rightarrow> string" where
  "cleanEndpoint e = (if take 1 e = ''/'' then e else CHR ''/'' # e)"

definition buildUrl :: "process_env \<Rightarrow> string \<Rightarrow> error + string" where
  "buildUrl penv e =
     (case getCurrentEnvironment penv of
        None \<Rightarrow> Inl TypeError
      | Some env \<Rightarrow> Inr (remove_trailing_slash (baseUrl env) @ cleanEndpoint e))"












text \<open>
  A double slash at position \<open>n\<close> of a URL: the characters before and at \<open>n\<close> are both
  slashes. The join of a built URL is the position where the endpoint path starts,
  that is the length of the base URL without its trailing slash.
\<close>

definition double_slash_at :: "string \<Rightarrow> nat \<Rightarrow> bool" where
  "double_slash_at u n = (0 < n \<and> n < length u \<and> u ! (n - 1) = CHR ''/'' \<and> u ! n = CHR ''/'')"

definition join_position :: "string \<Rightarrow> nat" where
  "join_position base = length (remove_trailing_slash base)"

section \<open>Notions used to state the properties\<close>

text \<open>
  The number the code reads from a pair of header names:
  \<^verbatim>\<open>parseInt(headers[k1] || headers[k2] || '0')\<close>, when that number is truthy. \<open>None\<close>
  when both headers are missing or empty, when the value does not start with a number,
  and when the number is 0.
\<close>

definition header_number :: "Response \<Rightarrow> string \<Rightarrow> string \<Rightarrow> int option" where
  "header_number r k1 k2 =
     truthy_number (parseInt (or_else (headers r k1) (or_else (headers r k2) ''0'')))"

text \<open>Whether a response carries a limit header, under either of its names.\<close>

definition limit_header_present :: "Response \<Rightarrow> bool" where
  "limit_header_present r =
     (headers r ''X-RateLimit-Limit'' \<noteq> None \<or> headers r ''X-Rate-Limit-Limit'' \<noteq> None)"

text \<open>A response with the given status and headers, and an empty body.\<close>

definition response_with :: "int \<Rightarrow> (string \<times> string) list \<Rightarrow> Response" where
  "response_with st hs =
     \<lparr> status = st, headers = map_of hs, body = BodyString [], timings_duration = 0,
       json = Inl JsonError \<rparr>"

text \<open>A response with status 200, the given body, document and duration, and no headers.\<close>

definition ok_response :: "string \<Rightarrow> error + jsval \<Rightarrow> real \<Rightarrow> Response" where
  "ok_response b j d =
     \<lparr> status = 200, headers = Map.empty, body = BodyString b, timings_duration = d, json = j \<rparr>"





definition resp_429_retry5 :: Response where
  "resp_429_retry5 = response_with 429 [ (''Retry-After'', ''5'') ]"

definition resp_limit_zero :: Response where
  "resp_limit_zero = response_with 200
     [ (''X-RateLimit-Limit'', ''0''), (''X-RateLimit-Remaining'', ''0'') ]"

definition resp_remaining7 :: Response where
  "resp_remaining7 = response_with 200
     [ (''X-RateLimit-Limit'', ''100''), (''X-RateLimit-Remaining'', ''7''),
       (''X-RateLimit-Reset'', ''1045'') ]"

text \<open>The document \<^verbatim>\<open>{"ok": true}\<close> and the document \<^verbatim>\<open>{"a": "xy", "items": [1, 2]}\<close>.\<close>

definition doc_ok :: jsval where
  "doc_ok = JObj [(''ok'', JBool True)]"

definition doc_a :: jsval where
  "doc_a = JObj [(''a'', JStr ''xy''), (''items'', JArr [JNum 1, JNum 2])]"

definition resp_ok :: Response where
  "resp_ok = ok_response ''{\"ok\":true}'' (Inr doc_ok) 120"

definition resp_slow :: Response where
  "resp_slow = ok_response ''{\"ok\":true}'' (Inr doc_ok) 1500"

definition resp_html :: Response where
  "resp_html = ok_response ''<html></html>'' (Inl JsonError) 120"

definition resp_a :: Response where
  "resp_a = ok_response ''{\"a\":\"xy\",\"items\":[1,2]}'' (Inr doc_a) 120"

text \<open>The document \<^verbatim>\<open>{"a": null}\<close>.\<close>

definition doc_null :: jsval where
  "doc_null = JObj [(''a'', JNull)]"

definition resp_null :: Response where
  "resp_null = ok_response ''{\"a\":null}'' (Inr doc_null) 120"


text \<open>Process environments whose base URL ends in one slash, and in two.\<close>

definition env_slash :: process_env where
  "env_slash = [''BASE_URL'' \<mapsto> ''https://api.example.com/'']"

definition env_two_slashes :: process_env where
  "env_two_slashes = [''BASE_URL'' \<mapsto> ''https://api.example.com//'']"




text \<open>
  A response whose remaining and reset headers are the 310-digit numeral of \<open>10^309\<close>,
  and a rounding that leaves every magnitude as it is.
\<close>

definition overflow_digits :: string where
  "overflow_digits = CHR ''1'' # replicate 309 CHR ''0''"

definition overflow_value :: int where
  "overflow_value = 10 ^ 309"

definition resp_overflow :: Response where
  "resp_overflow = response_with 200
     [ (''X-RateLimit-Limit'', ''100''), (''X-RateLimit-Remaining'', overflow_digits),
       (''X-RateLimit-Reset'', overflow_digits) ]"

definition exact_rounding :: rounding where
  "exact_rounding m = m"


text \<open>Concrete process environments used to evaluate the model.\<close>

definition no_vars :: process_env where
  "no_vars = Map.empty"

definition env_test :: process_env where
  "env_test = [''ENV'' \<mapsto> ''test'']"

definition env_qa :: process_env where
  "env_qa = [''ENV'' \<mapsto> ''qa'']"

definition env_dev :: process_env where
  "env_dev = [''ENV'' \<mapsto> ''dev'']"

definition env_staging :: process_env where
  "env_staging = [''ENV'' \<mapsto> ''staging'']"

definition env_prod :: process_env where
  "env_prod = [''ENV'' \<mapsto> ''prod'']"

section \<open>Properties\<close>

subsection \<open>Environment registry\<close>

lemma currentEnv_unset: "penv ''ENV'' = None \<or> penv ''ENV'' = Some [] \<Longrightarrow> currentEnv penv = ''prod''"
  by (auto simp: currentEnv_def env_or_def)

lemma currentEnv_set: "penv ''ENV'' = Some n \<Longrightarrow> n \<noteq> [] \<Longrightarrow> currentEnv penv = n"
  by (simp add: currentEnv_def env_or_def)

text \<open>
  Claim C1, as amended. When \<open>ENV\<close> is unset (or set to the empty string),
  \<open>getCurrentEnvironment\<close> returns the \<open>prod\<close> entry of the registry, and when \<open>ENV\<close> is
  one of \<open>dev\<close>, \<open>qa\<close>, \<open>staging\<close>, \<open>prod\<close> it returns that entry. For every other
  non-empty name there is no fallback: the lookup yields no \<open>EnvironmentConfig\<close> at all,
  in particular not the \<open>prod\<close> entry.
\<close>

theorem getCurrentEnvironment_resolution:
  "(penv ''ENV'' = None \<or> penv ''ENV'' = Some [] \<longrightarrow>
      getCurrentEnvironment penv = Some (prod_config penv))
   \<and> (penv ''ENV'' = Some ''dev'' \<longrightarrow> getCurrentEnvironment penv = Some (dev_config penv))
   \<and> (penv ''ENV'' = Some ''qa'' \<longrightarrow> getCurrentEnvironment penv = Some (qa_config penv))
   \<and> (penv ''ENV'' = Some ''staging'' \<longrightarrow>
        getCurrentEnvironment penv = Some (staging_config penv))
   \<and> (penv ''ENV'' = Some ''prod'' \<longrightarrow> getCurrentEnvironment penv = Some (prod_config penv))
   \<and> (\<forall>n. penv ''ENV'' = Some n \<and> n \<noteq> [] \<and> n \<notin> {''dev'', ''qa'', ''staging'', ''prod''} \<longrightarrow>
        getCurrentEnvironment penv = None)"
proof -
  have unset: "getCurrentEnvironment penv = Some (prod_config penv)"
    if "penv ''ENV'' = None \<or> penv ''ENV'' = Some []"
    using that currentEnv_unset [of penv]
    by (auto simp: getCurrentEnvironment_def environments_def)
  have named: "getCurrentEnvironment penv = map_of (environments penv) n"
    if "penv ''ENV'' = Some n" "n \<noteq> []" for n
    using that currentEnv_set [of penv n] by (simp add: getCurrentEnvironment_def)
  have other: "getCurrentEnvironment penv = None"
    if "penv ''ENV'' = Some n" "n \<noteq> []" "n \<notin> {''dev'', ''qa'', ''staging'', ''prod''}" for n
    using named [OF that(1,2)] that(3) by (simp add: environments_def)
  show ?thesis
    using unset named other by (simp add: environments_def)
qed

theorem getCurrentEnvironment_resolution_witness:
  "getCurrentEnvironment no_vars = Some (prod_config no_vars)
   \<and> getCurrentEnvironment env_dev = Some (dev_config env_dev)
   \<and> getCurrentEnvironment env_qa = Some (qa_config env_qa)
   \<and> getCurrentEnvironment env_staging = Some (staging_config env_staging)
   \<and> getCurrentEnvironment env_prod = Some (prod_config env_prod)
   \<and> getCurrentEnvironment env_test = None"
  using getCurrentEnvironment_resolution [of no_vars]
    getCurrentEnvironment_resolution [of env_dev]
    getCurrentEnvironment_resolution [of env_qa]
    getCurrentEnvironment_resolution [of env_staging]
    getCurrentEnvironment_resolution [of env_prod]
    getCurrentEnvironment_resolution [of env_test]
  by (simp add: no_vars_def env_dev_def env_qa_def env_staging_def env_prod_def env_test_def)

text \<open>
  The claim as the specification words it fails: with \<open>ENV=test\<close>, a name outside the
  four, the result is not the \<open>prod\<close> entry.
\<close>

theorem getCurrentEnvironment_unknown_counterexample:
  "getCurrentEnvironment env_test \<noteq> Some (prod_config env_test)"
  by (simp add: getCurrentEnvironment_def environments_def currentEnv_def env_or_def env_test_def)

subsection \<open>Test options\<close>






subsection \<open>Thresholds\<close>

lemma dom_endpointThresholds:
  "dom endpointThresholds =
     { ''http_req_duration{endpoint:login}'', ''http_req_duration{endpoint:list}'',
       ''http_req_duration{endpoint:create}'', ''http_req_duration{endpoint:update}'',
       ''http_req_duration{endpoint:delete}'' }"
  by (simp add: endpointThresholds_def dom_map_of_conv_image_fst)

lemma dom_relaxedThresholds:
  "dom relaxedThresholds = { ''http_req_duration'', ''http_req_failed'', ''http_reqs'', ''checks'' }"
  by (simp add: relaxedThresholds_def dom_map_of_conv_image_fst)

lemma relaxed_no_overrides: "dom relaxedThresholds \<inter> dom endpointThresholds = {}"
  by (simp add: dom_relaxedThresholds dom_endpointThresholds)

text \<open>
  Claim C3. For \<open>prod\<close> the result is the strict thresholds merged with the endpoint
  overrides, for \<open>dev\<close> it is the relaxed thresholds (which share no key with the
  override table), and for every other string it is the default thresholds merged with
  the endpoint overrides. In a merge the override wins at every key of the override
  table, so for every environment string except \<open>dev\<close> the result has every key of the
  override table, with the override's conditions.
\<close>

theorem getThresholdsForEnvironment_policy:
  "getThresholdsForEnvironment penv ''prod'' = strictThresholds ++ endpointThresholds
   \<and> getThresholdsForEnvironment penv ''dev'' = relaxedThresholds
   \<and> dom (getThresholdsForEnvironment penv ''dev'') \<inter> dom endpointThresholds = {}
   \<and> (env \<noteq> ''prod'' \<and> env \<noteq> ''dev'' \<longrightarrow>
        getThresholdsForEnvironment penv env = defaultThresholds penv ++ endpointThresholds)
   \<and> (env \<noteq> ''dev'' \<longrightarrow>
        dom endpointThresholds \<subseteq> dom (getThresholdsForEnvironment penv env)
        \<and> (\<forall>k \<in> dom endpointThresholds.
              getThresholdsForEnvironment penv env k = endpointThresholds k))"
proof -
  have win: "(m ++ endpointThresholds) k = endpointThresholds k"
    if "k \<in> dom endpointThresholds" for m :: thresholds and k
    using that by (simp add: map_add_dom_app_simps)
  have keys: "dom endpointThresholds \<subseteq> dom (m ++ endpointThresholds)" for m :: thresholds
    by simp
  show ?thesis
    using win keys relaxed_no_overrides
    by (simp add: getThresholdsForEnvironment_def)
qed

theorem getThresholdsForEnvironment_policy_witness:
  "getThresholdsForEnvironment no_vars ''staging'' = defaultThresholds no_vars ++ endpointThresholds
   \<and> getThresholdsForEnvironment no_vars ''staging'' ''http_req_duration{endpoint:login}''
       = Some [''p(95)<200'', ''p(99)<500'']
   \<and> getThresholdsForEnvironment no_vars ''prod'' ''http_req_duration{endpoint:login}''
       = Some [''p(95)<200'', ''p(99)<500'']
   \<and> getThresholdsForEnvironment no_vars ''dev'' ''http_req_duration{endpoint:login}'' = None"
proof -
  have k: "''http_req_duration{endpoint:login}'' \<in> dom endpointThresholds"
    by (simp add: dom_endpointThresholds)
  have v: "endpointThresholds ''http_req_duration{endpoint:login}'' = Some [''p(95)<200'', ''p(99)<500'']"
    by (simp add: endpointThresholds_def)
  have r: "relaxedThresholds ''http_req_duration{endpoint:login}'' = None"
    by (simp add: relaxedThresholds_def)
  show ?thesis
    using getThresholdsForEnvironment_policy [of no_vars "''staging''"]
      getThresholdsForEnvironment_policy [of no_vars "''prod''"] k v r
    by auto
qed

subsection \<open>Rate-limit handling\<close>

lemma extractRateLimitInfo_headers:
  "extractRateLimitInfo r =
     (case header_number r ''X-RateLimit-Limit'' ''X-Rate-Limit-Limit'' of
        None \<Rightarrow> None
      | Some l \<Rightarrow>
          Some \<lparr> limit = l,
                 remaining = (case header_number r ''X-RateLimit-Remaining'' ''X-Rate-Limit-Remaining''
                              of None \<Rightarrow> 0 | Some v \<Rightarrow> v),
                 reset = (case header_number r ''X-RateLimit-Reset'' ''X-Rate-Limit-Reset''
                          of None \<Rightarrow> 0 | Some v \<Rightarrow> v),
                 retryAfter = header_number r ''Retry-After'' ''retry-after'' \<rparr>)"
  unfolding extractRateLimitInfo_def header_number_def Let_def ..

lemma truthy_number_nonzero: "truthy_number n = Some v \<Longrightarrow> v \<noteq> 0"
  by (auto simp: truthy_number_def split: option.splits if_splits)


lemma header_number_nonzero: "header_number r k1 k2 = Some v \<Longrightarrow> v \<noteq> 0"
  unfolding header_number_def by (rule truthy_number_nonzero)

lemma header_number_absent:
  "headers r k1 = None \<Longrightarrow> headers r k2 = None \<Longrightarrow> header_number r k1 k2 = None"
proof -
  have "parseInt ''0'' = Some 0" by code_simp
  then show "headers r k1 = None \<Longrightarrow> headers r k2 = None \<Longrightarrow> header_number r k1 k2 = None"
    by (simp add: header_number_def or_else_def truthy_number_def)
qed


lemma isRateLimited_iff:
  "fst (isRateLimited r rt) \<longleftrightarrow>
     status r = 429 \<or> (\<exists>info. extractRateLimitInfo r = Some info \<and> remaining info = 0)"
  by (auto simp: isRateLimited_def split: option.splits)





text \<open>
  Claim C5, as amended. \<open>extractRateLimitInfo\<close> returns a \<open>RateLimitInfo\<close> exactly when
  the limit header (\<open>X-RateLimit-Limit\<close>, or \<open>X-Rate-Limit-Limit\<close> when the first is
  missing or empty) parses to a non-zero number, and that number is the \<open>limit\<close> of the
  record. It returns nothing otherwise: in particular when no limit header is present,
  and also when the header is present with a value that is zero or not a number.
\<close>

theorem extractRateLimitInfo_limit_header:
  "(extractRateLimitInfo r = None
      \<longleftrightarrow> header_number r ''X-RateLimit-Limit'' ''X-Rate-Limit-Limit'' = None)
   \<and> (\<not> limit_header_present r \<longrightarrow> extractRateLimitInfo r = None)
   \<and> (\<forall>info. extractRateLimitInfo r = Some info \<longrightarrow>
         limit_header_present r \<and> limit info \<noteq> 0
         \<and> header_number r ''X-RateLimit-Limit'' ''X-Rate-Limit-Limit'' = Some (limit info))"
proof -
  have iff: "extractRateLimitInfo r = None
      \<longleftrightarrow> header_number r ''X-RateLimit-Limit'' ''X-Rate-Limit-Limit'' = None"
    by (simp add: extractRateLimitInfo_headers split: option.split)
  have absent: "extractRateLimitInfo r = None" if "\<not> limit_header_present r"
    using that header_number_absent [of r "''X-RateLimit-Limit''" "''X-Rate-Limit-Limit''"] iff
    by (simp add: limit_header_present_def)
  have some: "limit_header_present r \<and> limit info \<noteq> 0
      \<and> header_number r ''X-RateLimit-Limit'' ''X-Rate-Limit-Limit'' = Some (limit info)"
    if "extractRateLimitInfo r = Some info" for info
  proof -
    from that obtain l where l: "header_number r ''X-RateLimit-Limit'' ''X-Rate-Limit-Limit'' = Some l"
      using iff by (cases "header_number r ''X-RateLimit-Limit'' ''X-Rate-Limit-Limit''") auto
    with that have "limit info = l"
      by (auto simp: extractRateLimitInfo_headers)
    moreover have "l \<noteq> 0" using l by (rule header_number_nonzero)
    moreover have "limit_header_present r" using absent that by auto
    ultimately show ?thesis using l by simp
  qed
  show ?thesis using iff absent some by blast
qed

theorem extractRateLimitInfo_limit_header_witness:
  "extractRateLimitInfo resp_429_retry5 = None
   \<and> limit (the (extractRateLimitInfo resp_remaining7)) = 100
   \<and> extractRateLimitInfo resp_remaining7 =
       Some \<lparr> limit = 100, remaining = 7, reset = 1045, retryAfter = None \<rparr>"
proof -
  have a: "\<not> limit_header_present resp_429_retry5" by code_simp
  have b: "extractRateLimitInfo resp_remaining7 =
       Some \<lparr> limit = 100, remaining = 7, reset = 1045, retryAfter = None \<rparr>" by code_simp
  show ?thesis
    using extractRateLimitInfo_limit_header [of resp_429_retry5]
      extractRateLimitInfo_limit_header [of resp_remaining7] a b
    by simp
qed

text \<open>
  The claim as the specification words it fails: a response whose limit header is
  present with the value \<open>0\<close> yields no \<open>RateLimitInfo\<close>.
\<close>

theorem extractRateLimitInfo_zero_limit_counterexample:
  "limit_header_present resp_limit_zero \<and> extractRateLimitInfo resp_limit_zero = None"
  by code_simp

lemma overflow_threshold_le: "overflow_threshold \<le> real_of_int overflow_value"
  by (simp add: overflow_threshold_def overflow_value_def)

lemma overflow_value_pos: "0 < overflow_value"
  by (simp add: overflow_value_def)

lemma digit_chars:
  "isRadixDigit 10 CHR ''0''" "isRadixDigit 10 CHR ''1''"
  "digitValue CHR ''0'' = Some 0" "digitValue CHR ''1'' = Some 1"
  "\<not> isStrWhiteSpaceChar CHR ''1''"
  by code_simp+

lemma foldl_zero_digits:
  "foldl (\<lambda>acc c. acc * 10 + (case digitValue c of None \<Rightarrow> 0 | Some d \<Rightarrow> d)) a
     (replicate n CHR ''0'') = a * 10 ^ n"
  by (induction n arbitrary: a) (simp_all add: digit_chars)

lemma digitsValue_overflow_digits: "int (digitsValue 10 overflow_digits) = overflow_value"
  by (simp add: digitsValue_def overflow_digits_def foldl_zero_digits digit_chars
        overflow_value_def)

lemma takeWhile_overflow_digits: "takeWhile (isRadixDigit 10) overflow_digits = overflow_digits"
  by (simp add: overflow_digits_def digit_chars takeWhile_replicate)

lemma overflow_digits_shape:
  "dropWhile isStrWhiteSpaceChar overflow_digits = overflow_digits"
  "take (Suc 0) overflow_digits = ''1''" "take 2 overflow_digits = ''10''"
  "overflow_digits \<noteq> []"
  by (simp_all add: overflow_digits_def digit_chars)

lemma parseInt_overflow_digits: "parseInt overflow_digits = Some overflow_value"
  by (simp add: parseInt_def Let_def overflow_digits_shape takeWhile_overflow_digits
        digitsValue_overflow_digits)

lemma extractRateLimitInfo_overflow:
  "extractRateLimitInfo resp_overflow =
     Some \<lparr> limit = 100, remaining = overflow_value, reset = overflow_value,
            retryAfter = None \<rparr>"
proof -
  have small: "parseInt ''100'' = Some 100" "parseInt ''0'' = Some 0"
    by code_simp+
  have h: "header_number resp_overflow ''X-RateLimit-Limit'' ''X-Rate-Limit-Limit'' = Some 100"
    "header_number resp_overflow ''X-RateLimit-Remaining'' ''X-Rate-Limit-Remaining''
       = Some overflow_value"
    "header_number resp_overflow ''X-RateLimit-Reset'' ''X-Rate-Limit-Reset''
       = Some overflow_value"
    "header_number resp_overflow ''Retry-After'' ''retry-after'' = None"
    using overflow_value_pos
    by (simp_all add: header_number_def resp_overflow_def response_with_def or_else_def
          overflow_digits_shape parseInt_overflow_digits small truthy_number_def)
  show ?thesis
    by (simp add: extractRateLimitInfo_headers h)
qed

lemma to_double_overflow: "to_double rnd overflow_value = Infinity Pos"
  using overflow_threshold_le overflow_value_pos by (simp add: to_double_def rounded_def)

lemma sub_from_infinity:
  "number_sub rnd (Infinity Pos) (to_double rnd now) = NaN
   \<or> number_sub rnd (Infinity Pos) (to_double rnd now) = Infinity Pos"
  by (simp add: to_double_def rounded_def)

text \<open>
  Where the think time is what the code intends: it is exactly 1 second when no
  rate-limit info can be extracted and when the remaining count is 0, and for
  ordinary headers (7 requests remaining, 45 seconds to the reset) it is
  \<open>45 / 7 * 1.2\<close> seconds.
\<close>

lemma calculateOptimalThinkTime_default:
  "extractRateLimitInfo r = None \<Longrightarrow> calculateOptimalThinkTime rnd now r = Fin Pos 1"
  "extractRateLimitInfo r = Some info \<Longrightarrow> remaining info = 0 \<Longrightarrow>
     calculateOptimalThinkTime rnd now r = Fin Pos 1"
  by (simp_all add: calculateOptimalThinkTime_def)

lemma calculateOptimalThinkTime_ordinary:
  "calculateOptimalThinkTime exact_rounding 1000 resp_remaining7 = Fin Pos (54 / 7)"
proof -
  have e: "extractRateLimitInfo resp_remaining7 =
       Some \<lparr> limit = 100, remaining = 7, reset = 1045, retryAfter = None \<rparr>" by code_simp
  show ?thesis
    by (simp add: calculateOptimalThinkTime_def e Let_def to_double_def signed_def rounded_def
          exact_rounding_def overflow_threshold_def)
qed

text \<open>
  Claim C10 says that \<open>calculateOptimalThinkTime\<close> returns at least 0.1 seconds for
  every response, as the comment \<^verbatim>\<open>// Minimum 0.1 seconds\<close> on its last line does. The
  code does not: for a response with a limit header and with remaining and reset
  headers of 310 digits, both numbers are \<^verbatim>\<open>Infinity\<close>, the quotient
  \<^verbatim>\<open>Infinity / Infinity\<close> is \<^verbatim>\<open>NaN\<close>, and \<^verbatim>\<open>Math.max(NaN, 0.1)\<close> is \<^verbatim>\<open>NaN\<close>, which is
  not at least 0.1. This holds at every clock value and for every rounding.
\<close>

theorem calculateOptimalThinkTime_overflow:
  "calculateOptimalThinkTime rnd now resp_overflow = NaN"
proof -
  have "Math_max (number_sub rnd (Infinity Pos) (to_double rnd now)) (Fin Pos 1) = NaN
      \<or> Math_max (number_sub rnd (Infinity Pos) (to_double rnd now)) (Fin Pos 1)
          = Infinity Pos"
    using sub_from_infinity [of rnd now] by auto
  then have "number_div rnd (Infinity Pos)
      (Math_max (number_sub rnd (Infinity Pos) (to_double rnd now)) (Fin Pos 1)) = NaN"
    by auto
  moreover have "overflow_value \<noteq> 0"
    using overflow_value_pos by simp
  ultimately show ?thesis
    by (simp add: calculateOptimalThinkTime_def extractRateLimitInfo_overflow
          to_double_overflow Let_def)
qed

subsection \<open>Checks\<close>

lemma check_all_passed:
  "(\<forall>p \<in> set ps. \<exists>b. p r = Inr b) \<Longrightarrow> check r ps = Inr (\<forall>p \<in> set ps. p r = Inr True)"
proof (induction ps)
  case Nil
  then show ?case by simp
next
  case (Cons p ps)
  then obtain b where b: "p r = Inr b" by auto
  from Cons have "check r ps = Inr (\<forall>p \<in> set ps. p r = Inr True)" by simp
  with b show ?case by auto
qed

lemma valid_json_total: "valid_json r = Inr (\<exists>j. json r = Inr j)"
  by (cases "json r") (simp_all add: valid_json_def try_catch_def)

lemma checkGetSuccess_eq:
  "checkGetSuccess r mx =
     Inr (status r = 200
          \<and> timings_duration r < (case mx of None \<Rightarrow> 1000 | Some m \<Rightarrow> m)
          \<and> body_not_empty r
          \<and> (\<exists>j. json r = Inr j))"
  by (simp add: checkGetSuccess_def Let_def valid_json_total)

text \<open>
  Claim C8. \<open>checkGetSuccess\<close> returns false (and does not throw) whenever the response
  time is not below the ceiling, be the status 200 or not, and whenever
  \<^verbatim>\<open>response.json()\<close> fails to parse the body, be the status 200 or not. The ceiling is
  the second argument, or 1000 milliseconds when it is omitted.
\<close>

theorem checkGetSuccess_rejects:
  "(m \<le> timings_duration r \<longrightarrow> checkGetSuccess r (Some m) = Inr False)
   \<and> (1000 \<le> timings_duration r \<longrightarrow> checkGetSuccess r None = Inr False)
   \<and> (\<forall>e. json r = Inl e \<longrightarrow> checkGetSuccess r mx = Inr False)"
  by (auto simp: checkGetSuccess_eq)

theorem checkGetSuccess_rejects_witness:
  "status resp_slow = 200 \<and> checkGetSuccess resp_slow (Some 1000) = Inr False
   \<and> checkGetSuccess resp_slow None = Inr False
   \<and> status resp_html = 200 \<and> checkGetSuccess resp_html (Some 1000) = Inr False
   \<and> checkGetSuccess resp_ok (Some 1000) = Inr True"
proof -
  have slow: "timings_duration resp_slow = 1500" "status resp_slow = 200"
    by (simp_all add: resp_slow_def ok_response_def)
  have html: "json resp_html = Inl JsonError" "status resp_html = 200"
    by (simp_all add: resp_html_def ok_response_def)
  have ok: "checkGetSuccess resp_ok (Some 1000) = Inr True"
    by (simp add: checkGetSuccess_eq resp_ok_def ok_response_def body_not_empty_def)
  show ?thesis
    using checkGetSuccess_rejects [of 1000 resp_slow]
      checkGetSuccess_rejects [of 1000 resp_html "Some 1000"] slow html ok
    by simp
qed

lemma canonical_index_length: "canonical_index ''length'' = None"
  by code_simp

lemma json_member_own:
  "json_member v k = Some w \<Longrightarrow> v \<noteq> JNull \<and> own_property v k = Some w"
  using canonical_index_length
  by (cases v) (auto simp: json_member_def own_property_def split: option.splits if_splits)

lemma first_absent_no_member:
  "first_absent j ks = Some (v, k) \<Longrightarrow> json_member v k = None"
  by (induction ks arbitrary: j) (auto split: option.splits)

lemma traverse_leaves:
  assumes "first_absent j ks = Some (v, k)"
    and "v = JNull \<or> (own_property v k = None \<and> inherited v k = None)"
  shows "traverse inherited j ks = Inl TypeError \<or> traverse inherited j ks = Inr None"
  using assms
proof (induction ks arbitrary: j)
  case Nil
  then show ?case by simp
next
  case (Cons f fs)
  show ?case
  proof (cases "json_member j f")
    case None
    with Cons.prems have "j = v" "f = k" by simp_all
    with Cons.prems(2) show ?thesis
      by (auto simp: get_property_def)
  next
    case (Some w)
    with Cons.prems have fa: "first_absent w fs = Some (v, k)" by simp
    from Some have "get_property inherited j f = Inr (Some w)"
      using json_member_own [of j f w] by (simp add: get_property_def)
    with Cons.IH [OF fa Cons.prems(2)] show ?thesis by simp
  qed
qed

lemma field_checks_total:
  "checkJsonHasField inherited r p = Inr (hasField_block inherited p r = Inr True)"
  "checkJsonFieldEquals inherited r p x = Inr (fieldEquals_block inherited p x r = Inr True)"
  by (auto simp: checkJsonHasField_def checkJsonFieldEquals_def try_catch_def
        split: sum.splits)

lemma field_checks_leave:
  assumes "traverse inherited j (split_on CHR ''.'' p) = Inl TypeError
           \<or> traverse inherited j (split_on CHR ''.'' p) = Inr None"
    and "json r = Inr j"
  shows "checkJsonHasField inherited r p = Inr False"
    and "checkJsonFieldEquals inherited r p x = Inr False"
  using assms
  by (auto simp: field_checks_total hasField_block_def fieldEquals_block_def)

text \<open>
  Claim C9, as amended. \<open>checkJsonHasField\<close> and \<open>checkJsonFieldEquals\<close> never raise an
  exception. They return false when the body does not parse, and when the path leaves
  the parsed JSON at a key \<open>k\<close> of a value \<open>v\<close> (\<open>k\<close> is the first key of the path that
  is absent from the document) and JavaScript has no property \<open>k\<close> on \<open>v\<close> either:
  \<open>v\<close> is \<^verbatim>\<open>null\<close>, or \<open>k\<close> is neither an own property of \<open>v\<close> (the \<^verbatim>\<open>length\<close>, a character
  or an element of a string or array) nor a member that \<open>v\<close> inherits from a built-in
  prototype. In particular they return false when an object of the document lacks the
  key and the key does not name an inherited member.
\<close>

theorem field_checks_absent_key:
  "(\<exists>b. checkJsonHasField inherited r p = Inr b)
   \<and> (\<exists>b. checkJsonFieldEquals inherited r p x = Inr b)
   \<and> (\<forall>e. json r = Inl e \<longrightarrow>
         checkJsonHasField inherited r p = Inr False
         \<and> checkJsonFieldEquals inherited r p x = Inr False)
   \<and> (\<forall>j v k. json r = Inr j \<and> first_absent j (split_on CHR ''.'' p) = Some (v, k)
         \<and> (v = JNull \<or> (own_property v k = None \<and> inherited v k = None)) \<longrightarrow>
         checkJsonHasField inherited r p = Inr False
         \<and> checkJsonFieldEquals inherited r p x = Inr False)
   \<and> (\<forall>j members k. json r = Inr j
         \<and> first_absent j (split_on CHR ''.'' p) = Some (JObj members, k)
         \<and> inherited (JObj members) k = None \<longrightarrow>
         checkJsonHasField inherited r p = Inr False
         \<and> checkJsonFieldEquals inherited r p x = Inr False)"
proof -
  have total: "\<exists>b. checkJsonHasField inherited r p = Inr b"
    "\<exists>b. checkJsonFieldEquals inherited r p x = Inr b"
    by (simp_all add: field_checks_total)
  have unparsed: "checkJsonHasField inherited r p = Inr False
      \<and> checkJsonFieldEquals inherited r p x = Inr False" if "json r = Inl e" for e
    using that by (simp add: field_checks_total hasField_block_def fieldEquals_block_def)
  have leaves: "checkJsonHasField inherited r p = Inr False
      \<and> checkJsonFieldEquals inherited r p x = Inr False"
    if "json r = Inr j" "first_absent j (split_on CHR ''.'' p) = Some (v, k)"
      "v = JNull \<or> (own_property v k = None \<and> inherited v k = None)" for j v k
  proof -
    have "traverse inherited j (split_on CHR ''.'' p) = Inl TypeError
        \<or> traverse inherited j (split_on CHR ''.'' p) = Inr None"
      using that(2,3) by (rule traverse_leaves [where inherited = inherited])
    then show ?thesis
      using that(1) by (simp add: field_checks_leave [where j = j])
  qed
  have object: "checkJsonHasField inherited r p = Inr False
      \<and> checkJsonFieldEquals inherited r p x = Inr False"
    if "json r = Inr j" "first_absent j (split_on CHR ''.'' p) = Some (JObj members, k)"
      "inherited (JObj members) k = None" for j members k
  proof -
    from that(2) have "json_member (JObj members) k = None"
      by (rule first_absent_no_member)
    then have "own_property (JObj members) k = None"
      by (simp add: json_member_def own_property_def)
    with that(3) leaves [OF that(1,2)] show ?thesis by simp
  qed
  show ?thesis
    using total unparsed leaves object by blast
qed

theorem field_checks_absent_key_witness:
  "checkJsonHasField no_prototypes resp_a ''a.b'' = Inr False
   \<and> checkJsonFieldEquals no_prototypes resp_a ''missing.x'' (JNum 1) = Inr False
   \<and> checkJsonHasField no_prototypes resp_null ''a.b'' = Inr False
   \<and> checkJsonFieldEquals no_prototypes resp_html ''a'' (JNum 1) = Inr False
   \<and> checkJsonHasField no_prototypes resp_a ''items.1'' = Inr True"
proof -
  have docs: "json resp_a = Inr doc_a" "json resp_null = Inr doc_null"
    "json resp_html = Inl JsonError"
    by (simp_all add: resp_a_def resp_null_def resp_html_def ok_response_def)
  have ab: "first_absent doc_a (split_on CHR ''.'' ''a.b'') = Some (JStr ''xy'', ''b'')"
    "own_property (JStr ''xy'') ''b'' = None"
    by code_simp+
  have missing: "first_absent doc_a (split_on CHR ''.'' ''missing.x'')
      = Some (JObj [(''a'', JStr ''xy''), (''items'', JArr [JNum 1, JNum 2])], ''missing'')"
    by code_simp
  have null: "first_absent doc_null (split_on CHR ''.'' ''a.b'') = Some (JNull, ''b'')"
    by code_simp
  have present: "checkJsonHasField no_prototypes resp_a ''items.1'' = Inr True"
    by code_simp
  have np: "no_prototypes v k = None" for v k
    by (simp add: no_prototypes_def)
  have 1: "checkJsonHasField no_prototypes resp_a ''a.b'' = Inr False"
    using field_checks_absent_key [of no_prototypes resp_a "''a.b''" JNull] docs(1) ab np
    by blast
  have 2: "checkJsonFieldEquals no_prototypes resp_a ''missing.x'' (JNum 1) = Inr False"
    using field_checks_absent_key [of no_prototypes resp_a "''missing.x''" "JNum 1"]
      docs(1) missing np
    by blast
  have 3: "checkJsonHasField no_prototypes resp_null ''a.b'' = Inr False"
    using field_checks_absent_key [of no_prototypes resp_null "''a.b''" JNull] docs(2) null
    by blast
  have 4: "checkJsonFieldEquals no_prototypes resp_html ''a'' (JNum 1) = Inr False"
    using field_checks_absent_key [of no_prototypes resp_html "''a''" "JNum 1"] docs(3)
    by blast
  show ?thesis
    using 1 2 3 4 present by simp
qed

text \<open>
  An own property is read before the prototype chain is consulted, so what the two
  checks find along \<open>a.0.length\<close> and \<open>items.length\<close> in the document
  \<^verbatim>\<open>{"a": "xy", "items": [1, 2]}\<close> is the same under every prototype table.
\<close>

lemma own_reads:
  "own_property v k = Some w \<Longrightarrow> v \<noteq> JNull \<Longrightarrow> get_property inherited v k = Inr (Some w)"
  by (simp add: get_property_def)

lemma string_path_found:
  "checkJsonHasField inherited resp_a ''a.0.length'' = Inr True"
  "checkJsonFieldEquals inherited resp_a ''items.length'' (JNum 2) = Inr True"
proof -
  have s: "split_on CHR ''.'' ''a.0.length'' = [''a'', ''0'', ''length'']"
    "split_on CHR ''.'' ''items.length'' = [''items'', ''length'']"
    by code_simp+
  have o: "own_property doc_a ''a'' = Some (JStr ''xy'')"
    "own_property (JStr ''xy'') ''0'' = Some (JStr ''x'')"
    "own_property (JStr ''x'') ''length'' = Some (JNum 1)"
    "own_property doc_a ''items'' = Some (JArr [JNum 1, JNum 2])"
    "own_property (JArr [JNum 1, JNum 2]) ''length'' = Some (JNum 2)"
    by code_simp+
  have j: "json resp_a = Inr doc_a" "doc_a \<noteq> JNull"
    by (simp_all add: resp_a_def ok_response_def doc_a_def)
  show "checkJsonHasField inherited resp_a ''a.0.length'' = Inr True"
    by (simp add: field_checks_total hasField_block_def j s
          own_reads [OF o(1)] own_reads [OF o(2)] own_reads [OF o(3)])
  show "checkJsonFieldEquals inherited resp_a ''items.length'' (JNum 2) = Inr True"
    by (simp add: field_checks_total fieldEquals_block_def j s
          own_reads [OF o(4)] own_reads [OF o(5)])
qed

text \<open>
  The claim as the specification words it fails. In the document
  \<^verbatim>\<open>{"a": "xy", "items": [1, 2]}\<close> the value under \<open>a\<close> is a string, so the keys \<open>0\<close> and
  \<open>length\<close> of the path \<open>a.0.length\<close> are absent from the parsed JSON, the first of them
  an intermediate key; yet \<open>checkJsonHasField\<close> returns true, because a JavaScript
  string has a character \<open>0\<close> and a \<open>length\<close>. In the same way \<open>items.length\<close>, which
  is no key of the document, is found and equals 2.
\<close>

theorem field_checks_string_counterexample:
  "json resp_a = Inr doc_a
   \<and> first_absent doc_a (split_on CHR ''.'' ''a.0.length'') = Some (JStr ''xy'', ''0'')
   \<and> checkJsonHasField no_prototypes resp_a ''a.0.length'' = Inr True
   \<and> first_absent doc_a (split_on CHR ''.'' ''items.length'')
        = Some (JArr [JNum 1, JNum 2], ''length'')
   \<and> checkJsonFieldEquals no_prototypes resp_a ''items.length'' (JNum 2) = Inr True"
  by code_simp

subsection \<open>HTTP helpers\<close>

lemma cleanEndpoint_slash: "take 1 e \<noteq> ''/'' \<Longrightarrow> cleanEndpoint (CHR ''/'' # e) = cleanEndpoint e"
  by (simp add: cleanEndpoint_def)

lemma cleanEndpoint_starts: "\<exists>rest. cleanEndpoint e = CHR ''/'' # rest"
  by (cases e) (auto simp: cleanEndpoint_def)

lemma remove_trailing_slash_one:
  "b = [] \<or> last b \<noteq> CHR ''/'' \<Longrightarrow> remove_trailing_slash (b @ ''/'') = b"
  by (simp add: remove_trailing_slash_def)

lemma double_slash_join:
  "double_slash_at (s @ cleanEndpoint e) (length s) \<longleftrightarrow> s \<noteq> [] \<and> last s = CHR ''/''"
proof -
  obtain rest where c: "cleanEndpoint e = CHR ''/'' # rest"
    using cleanEndpoint_starts by blast
  show ?thesis
  proof (cases "s = []")
    case True
    then show ?thesis by (simp add: double_slash_at_def)
  next
    case False
    then have "(s @ cleanEndpoint e) ! (length s - 1) = last s"
      by (simp add: nth_append last_conv_nth)
    with False c show ?thesis
      by (auto simp: double_slash_at_def)
  qed
qed

lemma remove_trailing_slash_ends:
  "(remove_trailing_slash base \<noteq> [] \<and> last (remove_trailing_slash base) = CHR ''/'')
     \<longleftrightarrow> (\<exists>b. base = b @ ''//'')"
proof
  assume l: "remove_trailing_slash base \<noteq> [] \<and> last (remove_trailing_slash base) = CHR ''/''"
  show "\<exists>b. base = b @ ''//''"
  proof (cases "base \<noteq> [] \<and> last base = CHR ''/''")
    case True
    then have r: "remove_trailing_slash base = butlast base"
      by (simp add: remove_trailing_slash_def)
    with l have "butlast base \<noteq> []" "last (butlast base) = CHR ''/''" by simp_all
    then have "butlast base = butlast (butlast base) @ ''/''"
      by (metis append_butlast_last_id)
    moreover from True have "base = butlast base @ ''/''"
      by (metis append_butlast_last_id)
    ultimately have "base = butlast (butlast base) @ ''//''"
      by (metis append.assoc append_Cons append_Nil)
    then show ?thesis ..
  next
    case False
    then have "remove_trailing_slash base = base"
      by (auto simp: remove_trailing_slash_def)
    with l False show ?thesis by simp
  qed
next
  assume "\<exists>b. base = b @ ''//''"
  then obtain b where "base = b @ ''//''" ..
  then show "remove_trailing_slash base \<noteq> [] \<and> last (remove_trailing_slash base) = CHR ''/''"
    by (simp add: remove_trailing_slash_def butlast_append)
qed

text \<open>
  Claim C6, as amended. For every endpoint \<open>e\<close> that does not start with a slash,
  \<open>buildUrl e\<close> equals \<open>buildUrl ('/' + e)\<close> under the same process environment. When the
  environment resolves, the URL is the base URL without one trailing slash followed by
  the endpoint path, and it has a double slash at the join exactly when the base URL
  ends in two slashes: so for every base URL that ends in exactly one trailing slash
  the result has no double slash at the join.
\<close>

theorem buildUrl_join:
  "(take 1 e \<noteq> ''/'' \<longrightarrow> buildUrl penv e = buildUrl penv (CHR ''/'' # e))
   \<and> (\<forall>env. getCurrentEnvironment penv = Some env \<longrightarrow>
        buildUrl penv e = Inr (remove_trailing_slash (baseUrl env) @ cleanEndpoint e)
        \<and> (double_slash_at (remove_trailing_slash (baseUrl env) @ cleanEndpoint e)
              (join_position (baseUrl env))
            \<longleftrightarrow> (\<exists>b. baseUrl env = b @ ''//'')))
   \<and> (\<forall>env b. getCurrentEnvironment penv = Some env \<and> baseUrl env = b @ ''/''
          \<and> (b = [] \<or> last b \<noteq> CHR ''/'') \<longrightarrow>
        buildUrl penv e = Inr (b @ cleanEndpoint e)
        \<and> \<not> double_slash_at (b @ cleanEndpoint e) (length b))"
proof -
  have same: "buildUrl penv e = buildUrl penv (CHR ''/'' # e)" if "take 1 e \<noteq> ''/''"
    using cleanEndpoint_slash [OF that] by (simp add: buildUrl_def split: option.split)
  have built: "buildUrl penv e = Inr (remove_trailing_slash (baseUrl env) @ cleanEndpoint e)"
    if "getCurrentEnvironment penv = Some env" for env
    using that by (simp add: buildUrl_def)
  have join: "double_slash_at (remove_trailing_slash (baseUrl env) @ cleanEndpoint e)
        (join_position (baseUrl env)) \<longleftrightarrow> (\<exists>b. baseUrl env = b @ ''//'')"
    for env :: EnvironmentConfig
    unfolding join_position_def double_slash_join remove_trailing_slash_ends ..
  have one: "buildUrl penv e = Inr (b @ cleanEndpoint e)
      \<and> \<not> double_slash_at (b @ cleanEndpoint e) (length b)"
    if "getCurrentEnvironment penv = Some env" "baseUrl env = b @ ''/''"
      "b = [] \<or> last b \<noteq> CHR ''/''" for env b
    using built [OF that(1)] remove_trailing_slash_one [OF that(3)] that(2,3)
      double_slash_join [of b e]
    by auto
  show ?thesis
    using same built join one by blast
qed

theorem buildUrl_join_witness:
  "buildUrl env_slash ''status'' = buildUrl env_slash ''/status''
   \<and> buildUrl env_slash ''status'' = Inr ''https://api.example.com/status''
   \<and> \<not> double_slash_at ''https://api.example.com/status'' (length ''https://api.example.com'')"
proof -
  have env: "getCurrentEnvironment env_slash = Some (prod_config env_slash)"
    by (simp add: getCurrentEnvironment_def environments_def currentEnv_def env_or_def
          env_slash_def)
  have base: "baseUrl (prod_config env_slash) = ''https://api.example.com'' @ ''/''"
    by (simp add: prod_config_def env_or_def env_slash_def)
  have l: "last ''https://api.example.com'' \<noteq> CHR ''/''"
    by simp
  have c: "cleanEndpoint ''status'' = ''/status''" "take 1 ''status'' \<noteq> ''/''"
    by (simp_all add: cleanEndpoint_def)
  show ?thesis
    using buildUrl_join [of "''status''" env_slash] env base l c
    by auto
qed

text \<open>
  The claim as the specification words it fails: only one trailing slash is removed,
  so a base URL that ends in two slashes gives a double slash at the join.
\<close>

theorem buildUrl_two_slashes_counterexample:
  "map_option baseUrl (getCurrentEnvironment env_two_slashes) = Some ''https://api.example.com//''
   \<and> buildUrl env_two_slashes ''status'' = Inr ''https://api.example.com//status''
   \<and> double_slash_at ''https://api.example.com//status''
        (join_position ''https://api.example.com//'')"
  by code_simp






end
